theory Spec2Isabelle
  imports Complex_Main
begin

section \<open>Water-quality data model\<close>

text \<open>
  The embedding follows \<^verbatim>\<open>src/wwtpsim.cpp\<close>. The C++ \<^verbatim>\<open>float\<close> values are taken as
  real numbers and every \<^verbatim>\<open>f\<close>-suffixed literal at its decimal value, so the arithmetic
  is exact: rounding, infinities and NaN are outside this model, and the last section of
  definitions adds the infinities and NaN for the aeration tank. \<^verbatim>\<open>std::exp\<close> is
  \<^term>\<open>exp\<close> and \<^verbatim>\<open>std::pow\<close> with the positive base \<^verbatim>\<open>1.035f\<close> is \<^term>\<open>(powr)\<close>.
  Names, positions, shapes and particles of a component only serve the drawing code and
  are left out.
\<close>

datatype WaterParameter =
    BOD | COD | TSS | NH4 | NO3 | PH | P | OIL | DO | TEMP
  | PATHOGENS | SALINITY | TURBIDITY | EC | ALKALINITY
  | RESIDUAL_CHLORINE | HARDNESS | SULFATES | CHLORIDES | METALS

text \<open>
  \<^verbatim>\<open>Water::parameters\<close> is a \<^verbatim>\<open>std::map<WaterParameter, float>\<close> that the constructor
  fills for all twenty keys and from which no key is ever erased, so a sample is a total
  function.
\<close>

type_synonym Water = "WaterParameter \<Rightarrow> real"

definition all_parameters :: "WaterParameter list" where
  "all_parameters =
     [BOD, COD, TSS, NH4, NO3, PH, P, OIL, DO, TEMP,
      PATHOGENS, SALINITY, TURBIDITY, EC, ALKALINITY,
      RESIDUAL_CHLORINE, HARDNESS, SULFATES, CHLORIDES, METALS]"

fun Water_default :: Water where
  "Water_default BOD = 300.0"
| "Water_default COD = 600.0"
| "Water_default TSS = 200.0"
| "Water_default NH4 = 50.0"
| "Water_default NO3 = 5.0"
| "Water_default PH = 6.5"
| "Water_default P = 10.0"
| "Water_default OIL = 30.0"
| "Water_default DO = 2.0"
| "Water_default TEMP = 20.0"
| "Water_default PATHOGENS = 1000000"
| "Water_default SALINITY = 0.5"
| "Water_default TURBIDITY = 50.0"
| "Water_default EC = 1500.0"
| "Water_default ALKALINITY = 200.0"
| "Water_default RESIDUAL_CHLORINE = 0.0"
| "Water_default HARDNESS = 250.0"
| "Water_default SULFATES = 80.0"
| "Water_default CHLORIDES = 100.0"
| "Water_default METALS = 5.0"

definition updateParameter :: "Water \<Rightarrow> WaterParameter \<Rightarrow> real \<Rightarrow> Water" where
  "updateParameter w param v = w(param := v)"

definition getParameter :: "Water \<Rightarrow> WaterParameter \<Rightarrow> real" where
  "getParameter w param = w param"

section \<open>Components\<close>

text \<open>The dynamic class of a component, which selects the \<^verbatim>\<open>simulate\<close> override.\<close>

datatype ComponentClass =
    Inlet | Outlet
  | PrimaryClarifier | ElectrocoagulationUnit | Filtration | AnaerobicAerobicFilter
  | OzoneDisinfection | MBR | Biofilter | PrimarySedimentationTank | AerationTank
  | SecondaryClarifier | ChlorineDisinfectionUnit | NitrificationTank | UVDisinfection
  | AnaerobicFilter | CoagulationFlocculation | MembraneFiltration | ChemicalOxidation
  | ActiveSludgeProcess | SludgeDigester | OilSeparator | PhosphorusRemovalUnit
  | DryingBed | Pump | FlowMeter | WaterSoftener | ActivatedCarbonFilter
  | HeatExchanger | MetalsRemovalUnit | MembraneFiltrationUnit | ReverseOsmosisUnit

record Component =
  cls :: ComponentClass
  volume :: real
  flowRate :: real
  HRT :: real
  SRT :: real
  temperature :: real
  inletWater :: Water
  outletWater :: Water
  removalEfficiencies :: "WaterParameter \<rightharpoonup> real"

text \<open>The member initialisers of \<^verbatim>\<open>Component\<close>; both waters are default-constructed.\<close>

definition new_Component :: "ComponentClass \<Rightarrow> Component" where
  "new_Component k =
     \<lparr> cls = k, volume = 1000, flowRate = 100, HRT = 10, SRT = 20, temperature = 20.0,
       inletWater = Water_default, outletWater = Water_default,
       removalEfficiencies = Map.empty \<rparr>"

definition addRemovalEfficiency :: "Component \<Rightarrow> WaterParameter \<Rightarrow> real \<Rightarrow> Component" where
  "addRemovalEfficiency c param efficiency =
     c\<lparr>removalEfficiencies := (removalEfficiencies c)(param \<mapsto> efficiency)\<rparr>"

definition removeRemovalEfficiency :: "Component \<Rightarrow> WaterParameter \<Rightarrow> Component" where
  "removeRemovalEfficiency c param =
     c\<lparr>removalEfficiencies := (removalEfficiencies c)(param := None)\<rparr>"

section \<open>Transfer functions\<close>

text \<open>
  Each \<^verbatim>\<open>simulate(float deltaTime)\<close> override, in the order of the source. A method
  mutates \<^verbatim>\<open>outletWater\<close> of its own object; the model returns the updated component.
\<close>

definition Component_simulate :: "real \<Rightarrow> Component \<Rightarrow> Component" where
  "Component_simulate deltaTime c = c\<lparr>outletWater := inletWater c\<rparr>"

definition PrimaryClarifier_simulate :: "real \<Rightarrow> Component \<Rightarrow> Component" where
  "PrimaryClarifier_simulate deltaTime c =
     (let removalEfficiencyTSS = (0.70::real);
          removalEfficiencyOIL = (0.90::real);
          w0 = inletWater c;
          w1 = updateParameter w0 TSS (getParameter (inletWater c) TSS * (1 - removalEfficiencyTSS));
          w2 = updateParameter w1 OIL (getParameter (inletWater c) OIL * (1 - removalEfficiencyOIL));
          w3 = updateParameter w2 TURBIDITY (getParameter (inletWater c) TURBIDITY * 0.8)
      in c\<lparr>outletWater := w3\<rparr>)"

definition ElectrocoagulationUnit_simulate :: "real \<Rightarrow> Component \<Rightarrow> Component" where
  "ElectrocoagulationUnit_simulate deltaTime c =
     (let removalEfficiencyMETALS = (0.80::real);
          removalEfficiencyTSS = (0.60::real);
          pH_adjustment = (0.5::real);
          EC_adjustment = (200.0::real);
          w0 = inletWater c;
          w1 = updateParameter w0 METALS (getParameter (inletWater c) METALS * (1 - removalEfficiencyMETALS));
          w2 = updateParameter w1 TSS (getParameter (inletWater c) TSS * (1 - removalEfficiencyTSS));
          w3 = updateParameter w2 PH (getParameter (inletWater c) PH + pH_adjustment);
          w4 = updateParameter w3 EC (getParameter (inletWater c) EC + EC_adjustment)
      in c\<lparr>outletWater := w4\<rparr>)"

definition Filtration_simulate :: "real \<Rightarrow> Component \<Rightarrow> Component" where
  "Filtration_simulate deltaTime c =
     (let removalEfficiencyTSS = (0.80::real);
          removalEfficiencyTURB = (0.70::real);
          w0 = inletWater c;
          w1 = updateParameter w0 TSS (getParameter (inletWater c) TSS * (1 - removalEfficiencyTSS));
          w2 = updateParameter w1 TURBIDITY (getParameter (inletWater c) TURBIDITY * (1 - removalEfficiencyTURB))
      in c\<lparr>outletWater := w2\<rparr>)"

definition AnaerobicAerobicFilter_simulate :: "real \<Rightarrow> Component \<Rightarrow> Component" where
  "AnaerobicAerobicFilter_simulate deltaTime c =
     (let k_bod = (0.2::real);
          k_cod = (0.1::real);
          k_nh4 = (0.05::real);
          tempFactor = (1.035::real) powr (getParameter (inletWater c) TEMP - 20.0);
          BOD_in = getParameter (inletWater c) BOD;
          COD_in = getParameter (inletWater c) COD;
          NH4_in = getParameter (inletWater c) NH4;
          BOD_removal = BOD_in * (1 - exp (- k_bod * HRT c * tempFactor));
          COD_removal = COD_in * (1 - exp (- k_cod * HRT c * tempFactor));
          NH4_removal = NH4_in * (1 - exp (- k_nh4 * HRT c * tempFactor));
          w0 = inletWater c;
          w1 = updateParameter w0 BOD (BOD_in - BOD_removal);
          w2 = updateParameter w1 COD (COD_in - COD_removal);
          w3 = updateParameter w2 NH4 (NH4_in - NH4_removal);
          w4 = updateParameter w3 NO3 (getParameter (inletWater c) NO3 + NH4_removal * 0.9);
          DO_consumed = (BOD_removal + COD_removal + NH4_removal * 4.57) * 1.5;
          w5 = updateParameter w4 DO (getParameter (inletWater c) DO - DO_consumed);
          w6 = (if getParameter w5 DO < 0 then updateParameter w5 DO 0 else w5)
      in c\<lparr>outletWater := w6\<rparr>)"

definition OzoneDisinfection_simulate :: "real \<Rightarrow> Component \<Rightarrow> Component" where
  "OzoneDisinfection_simulate deltaTime c =
     (let pathogen_removal = getParameter (inletWater c) PATHOGENS * 0.999;
          oxidationEfficiency = (0.90::real);
          w0 = inletWater c;
          w1 = updateParameter w0 PATHOGENS (getParameter (inletWater c) PATHOGENS - pathogen_removal);
          w2 = updateParameter w1 COD (getParameter (inletWater c) COD * (1 - oxidationEfficiency));
          w3 = updateParameter w2 TSS (getParameter (inletWater c) TSS * (1 - oxidationEfficiency))
      in c\<lparr>outletWater := w3\<rparr>)"

definition MBR_simulate :: "real \<Rightarrow> Component \<Rightarrow> Component" where
  "MBR_simulate deltaTime c =
     (let k_bod = (0.1::real);
          k_cod = (0.05::real);
          k_nh4 = (0.03::real);
          tempFactor = (1.035::real) powr (getParameter (inletWater c) TEMP - 20.0);
          BOD_in = getParameter (inletWater c) BOD;
          COD_in = getParameter (inletWater c) COD;
          NH4_in = getParameter (inletWater c) NH4;
          BOD_removal = BOD_in * (1 - exp (- k_bod * HRT c * tempFactor));
          COD_removal = COD_in * (1 - exp (- k_cod * HRT c * tempFactor));
          NH4_removal = NH4_in * (1 - exp (- k_nh4 * HRT c * tempFactor));
          w0 = inletWater c;
          w1 = updateParameter w0 BOD (BOD_in - BOD_removal);
          w2 = updateParameter w1 COD (COD_in - COD_removal);
          w3 = updateParameter w2 NH4 (NH4_in - NH4_removal);
          w4 = updateParameter w3 NO3 (getParameter (inletWater c) NO3 + NH4_removal * 0.9);
          DO_consumed = (BOD_removal + COD_removal + NH4_removal * 4.57) * 1.5;
          w5 = updateParameter w4 DO (getParameter (inletWater c) DO - DO_consumed);
          w6 = (if getParameter w5 DO < 0 then updateParameter w5 DO 0 else w5)
      in c\<lparr>outletWater := w6\<rparr>)"

definition Biofilter_simulate :: "real \<Rightarrow> Component \<Rightarrow> Component" where
  "Biofilter_simulate deltaTime c =
     (let k_bod = (0.2::real);
          k_cod = (0.1::real);
          k_nh4 = (0.05::real);
          tempFactor = (1.035::real) powr (getParameter (inletWater c) TEMP - 20.0);
          BOD_in = getParameter (inletWater c) BOD;
          COD_in = getParameter (inletWater c) COD;
          NH4_in = getParameter (inletWater c) NH4;
          BOD_removal = BOD_in * (1 - exp (- k_bod * HRT c * tempFactor));
          COD_removal = COD_in * (1 - exp (- k_cod * HRT c * tempFactor));
          NH4_removal = NH4_in * (1 - exp (- k_nh4 * HRT c * tempFactor));
          w0 = inletWater c;
          w1 = updateParameter w0 BOD (BOD_in - BOD_removal);
          w2 = updateParameter w1 COD (COD_in - COD_removal);
          w3 = updateParameter w2 NH4 (NH4_in - NH4_removal);
          w4 = updateParameter w3 NO3 (getParameter (inletWater c) NO3 + NH4_removal * 0.9);
          DO_consumed = (BOD_removal + COD_removal + NH4_removal * 4.57) * 1.5;
          w5 = updateParameter w4 DO (getParameter (inletWater c) DO - DO_consumed);
          w6 = (if getParameter w5 DO < 0 then updateParameter w5 DO 0 else w5)
      in c\<lparr>outletWater := w6\<rparr>)"

definition PrimarySedimentationTank_simulate :: "real \<Rightarrow> Component \<Rightarrow> Component" where
  "PrimarySedimentationTank_simulate deltaTime c =
     (let removalEfficiencyTSS = (0.60::real);
          removalEfficiencyBOD = (0.35::real);
          removalEfficiencyPathogen = (0.60::real);
          w0 = inletWater c;
          w1 = updateParameter w0 TSS (getParameter (inletWater c) TSS * (1 - removalEfficiencyTSS));
          w2 = updateParameter w1 BOD (getParameter (inletWater c) BOD * (1 - removalEfficiencyBOD));
          w3 = updateParameter w2 TURBIDITY (getParameter (inletWater c) TURBIDITY * 0.5);
          w4 = updateParameter w3 PATHOGENS (getParameter (inletWater c) PATHOGENS * (1 - removalEfficiencyPathogen))
      in c\<lparr>outletWater := w4\<rparr>)"

definition AerationTank_simulate :: "real \<Rightarrow> Component \<Rightarrow> Component" where
  "AerationTank_simulate deltaTime c =
     (let k_bod = (0.2::real);
          k_nh4 = (0.1::real);
          tempFactor = (1.035::real) powr (getParameter (inletWater c) TEMP - 20.0);
          BOD_in = getParameter (inletWater c) BOD;
          NH4_in = getParameter (inletWater c) NH4;
          BOD_removal = BOD_in * (1 - exp (- k_bod * HRT c * tempFactor));
          NH4_removal = NH4_in * (1 - exp (- k_nh4 * HRT c * tempFactor));
          w0 = inletWater c;
          w1 = updateParameter w0 BOD (BOD_in - BOD_removal);
          w2 = updateParameter w1 NH4 (NH4_in - NH4_removal);
          w3 = updateParameter w2 NO3 (getParameter (inletWater c) NO3 + NH4_removal * 0.9);
          DO_consumed = (BOD_removal + NH4_removal * 4.57) * 1.5;
          w4 = updateParameter w3 DO (getParameter (inletWater c) DO - DO_consumed);
          w5 = (if getParameter w4 DO < 0 then updateParameter w4 DO 0 else w4)
      in c\<lparr>outletWater := w5\<rparr>)"

definition SecondaryClarifier_simulate :: "real \<Rightarrow> Component \<Rightarrow> Component" where
  "SecondaryClarifier_simulate deltaTime c =
     (let TSS_removal = getParameter (inletWater c) TSS * 0.85;
          w0 = inletWater c;
          w1 = updateParameter w0 TSS (getParameter (inletWater c) TSS - TSS_removal);
          w2 = updateParameter w1 TURBIDITY (getParameter (inletWater c) TURBIDITY * 0.7)
      in c\<lparr>outletWater := w2\<rparr>)"

definition ChlorineDisinfectionUnit_simulate :: "real \<Rightarrow> Component \<Rightarrow> Component" where
  "ChlorineDisinfectionUnit_simulate deltaTime c =
     (let pathogen_removal = getParameter (inletWater c) PATHOGENS * 0.99999;
          w0 = inletWater c;
          w1 = updateParameter w0 PATHOGENS (getParameter (inletWater c) PATHOGENS - pathogen_removal);
          w2 = updateParameter w1 RESIDUAL_CHLORINE 0.7;
          w3 = updateParameter w2 CHLORIDES (getParameter (inletWater c) CHLORIDES * 1.46)
      in c\<lparr>outletWater := w3\<rparr>)"

definition NitrificationTank_simulate :: "real \<Rightarrow> Component \<Rightarrow> Component" where
  "NitrificationTank_simulate deltaTime c =
     (let k_nh4 = (0.1::real);
          tempFactor = (1.035::real) powr (getParameter (inletWater c) TEMP - 20.0);
          alkalinityremoval = (0.5::real);
          NH4_in = getParameter (inletWater c) NH4;
          NO3_in = getParameter (inletWater c) NO3;
          NH4_removal = NH4_in * (1 - exp (- k_nh4 * HRT c * tempFactor));
          NO3_generated = NH4_removal * 0.9;
          w0 = inletWater c;
          w1 = updateParameter w0 NH4 (NH4_in - NH4_removal);
          w2 = updateParameter w1 NO3 (NO3_in + NO3_generated);
          w3 = updateParameter w2 ALKALINITY (getParameter (inletWater c) ALKALINITY - alkalinityremoval)
      in c\<lparr>outletWater := w3\<rparr>)"

definition UVDisinfection_simulate :: "real \<Rightarrow> Component \<Rightarrow> Component" where
  "UVDisinfection_simulate deltaTime c =
     (let pathogen_removal = getParameter (inletWater c) PATHOGENS * 0.999;
          w0 = inletWater c;
          w1 = updateParameter w0 PATHOGENS (getParameter (inletWater c) PATHOGENS - pathogen_removal)
      in c\<lparr>outletWater := w1\<rparr>)"

definition AnaerobicFilter_simulate :: "real \<Rightarrow> Component \<Rightarrow> Component" where
  "AnaerobicFilter_simulate deltaTime c =
     (let COD_in = getParameter (inletWater c) COD;
          COD_removal = COD_in * 0.65;
          w0 = inletWater c;
          w1 = updateParameter w0 COD (COD_in - COD_removal)
      in c\<lparr>outletWater := w1\<rparr>)"

definition CoagulationFlocculation_simulate :: "real \<Rightarrow> Component \<Rightarrow> Component" where
  "CoagulationFlocculation_simulate deltaTime c =
     (let COD_removal = getParameter (inletWater c) COD * 0.40;
          TSS_removal = getParameter (inletWater c) TSS * 0.60;
          w0 = inletWater c;
          w1 = updateParameter w0 COD (getParameter (inletWater c) COD - COD_removal);
          w2 = updateParameter w1 TSS (getParameter (inletWater c) TSS - TSS_removal)
      in c\<lparr>outletWater := w2\<rparr>)"

definition MembraneFiltration_simulate :: "real \<Rightarrow> Component \<Rightarrow> Component" where
  "MembraneFiltration_simulate deltaTime c =
     (let COD_removal = getParameter (inletWater c) COD * 0.20;
          TSS_removal = getParameter (inletWater c) TSS * 0.45;
          pathogen_removal = getParameter (inletWater c) PATHOGENS * 0.9999;
          w0 = inletWater c;
          w1 = updateParameter w0 COD (getParameter (inletWater c) COD - COD_removal);
          w2 = updateParameter w1 TSS (getParameter (inletWater c) TSS - TSS_removal);
          w3 = updateParameter w2 PATHOGENS (getParameter (inletWater c) PATHOGENS - pathogen_removal)
      in c\<lparr>outletWater := w3\<rparr>)"

definition ChemicalOxidation_simulate :: "real \<Rightarrow> Component \<Rightarrow> Component" where
  "ChemicalOxidation_simulate deltaTime c =
     (let COD_removal = getParameter (inletWater c) COD * 0.70;
          w0 = inletWater c;
          w1 = updateParameter w0 COD (getParameter (inletWater c) COD - COD_removal);
          w2 = updateParameter w1 TURBIDITY (getParameter (inletWater c) TURBIDITY * 0.8)
      in c\<lparr>outletWater := w2\<rparr>)"

definition ActiveSludgeProcess_simulate :: "real \<Rightarrow> Component \<Rightarrow> Component" where
  "ActiveSludgeProcess_simulate deltaTime c =
     (let k_bod = (0.2::real);
          k_nh4 = (0.1::real);
          tempFactor = (1.035::real) powr (getParameter (inletWater c) TEMP - 20.0);
          BOD_in = getParameter (inletWater c) BOD;
          NH4_in = getParameter (inletWater c) NH4;
          BOD_removal = BOD_in * (1 - exp (- k_bod * HRT c * tempFactor));
          NH4_removal = NH4_in * (1 - exp (- k_nh4 * HRT c * tempFactor));
          w0 = inletWater c;
          w1 = updateParameter w0 BOD (BOD_in - BOD_removal);
          w2 = updateParameter w1 NH4 (NH4_in - NH4_removal);
          w3 = updateParameter w2 NO3 (getParameter (inletWater c) NO3 + NH4_removal * 0.9);
          DO_consumed = (BOD_removal + NH4_removal * 4.57) * 1.5;
          w4 = updateParameter w3 DO (getParameter (inletWater c) DO - DO_consumed);
          w5 = (if getParameter w4 DO < 0 then updateParameter w4 DO 0 else w4);
          COD_removal = getParameter (inletWater c) COD * 0.79;
          w6 = updateParameter w5 COD (getParameter (inletWater c) COD - COD_removal)
      in c\<lparr>outletWater := w6\<rparr>)"

definition SludgeDigester_simulate :: "real \<Rightarrow> Component \<Rightarrow> Component" where
  "SludgeDigester_simulate deltaTime c =
     (let VSS_removal = getParameter (inletWater c) TSS * 0.55;
          w0 = inletWater c;
          w1 = updateParameter w0 TSS (getParameter (inletWater c) TSS - VSS_removal)
      in c\<lparr>outletWater := w1\<rparr>)"

definition OilSeparator_simulate :: "real \<Rightarrow> Component \<Rightarrow> Component" where
  "OilSeparator_simulate deltaTime c =
     (let oil_removal = getParameter (inletWater c) OIL * 0.90;
          w0 = inletWater c;
          w1 = updateParameter w0 OIL (getParameter (inletWater c) OIL - oil_removal);
          w2 = updateParameter w1 TURBIDITY (getParameter (inletWater c) TURBIDITY * 0.9)
      in c\<lparr>outletWater := w2\<rparr>)"

definition PhosphorusRemovalUnit_simulate :: "real \<Rightarrow> Component \<Rightarrow> Component" where
  "PhosphorusRemovalUnit_simulate deltaTime c =
     (let P_removal = getParameter (inletWater c) P * 0.75;
          w0 = inletWater c;
          w1 = updateParameter w0 P (getParameter (inletWater c) P - P_removal);
          w2 = updateParameter w1 TSS (getParameter (inletWater c) TSS + P_removal * 2)
      in c\<lparr>outletWater := w2\<rparr>)"

definition DryingBed_simulate :: "real \<Rightarrow> Component \<Rightarrow> Component" where
  "DryingBed_simulate deltaTime c =
     (let moisture_removal = getParameter (inletWater c) TSS * 0.95;
          w0 = inletWater c;
          w1 = updateParameter w0 TSS (getParameter (inletWater c) TSS - moisture_removal)
      in c\<lparr>outletWater := w1\<rparr>)"

definition Pump_simulate :: "real \<Rightarrow> Component \<Rightarrow> Component" where
  "Pump_simulate deltaTime c = c\<lparr>outletWater := inletWater c\<rparr>"

definition FlowMeter_simulate :: "real \<Rightarrow> Component \<Rightarrow> Component" where
  "FlowMeter_simulate deltaTime c = c\<lparr>outletWater := inletWater c\<rparr>"

definition WaterSoftener_simulate :: "real \<Rightarrow> Component \<Rightarrow> Component" where
  "WaterSoftener_simulate deltaTime c =
     (let hardness_removal = getParameter (inletWater c) HARDNESS * 0.90;
          w0 = inletWater c;
          w1 = updateParameter w0 HARDNESS (getParameter (inletWater c) HARDNESS - hardness_removal)
      in c\<lparr>outletWater := w1\<rparr>)"

definition ActivatedCarbonFilter_simulate :: "real \<Rightarrow> Component \<Rightarrow> Component" where
  "ActivatedCarbonFilter_simulate deltaTime c =
     (let COD_removal = getParameter (inletWater c) COD * 0.30;
          w0 = inletWater c;
          w1 = updateParameter w0 COD (getParameter (inletWater c) COD - COD_removal)
      in c\<lparr>outletWater := w1\<rparr>)"

definition HeatExchanger_simulate :: "real \<Rightarrow> Component \<Rightarrow> Component" where
  "HeatExchanger_simulate deltaTime c =
     (let w0 = inletWater c;
          w1 = updateParameter w0 TEMP 25.0
      in c\<lparr>outletWater := w1\<rparr>)"

definition MetalsRemovalUnit_simulate :: "real \<Rightarrow> Component \<Rightarrow> Component" where
  "MetalsRemovalUnit_simulate deltaTime c =
     (let metals_removal = getParameter (inletWater c) METALS * 0.85;
          w0 = inletWater c;
          w1 = updateParameter w0 METALS (getParameter (inletWater c) METALS - metals_removal)
      in c\<lparr>outletWater := w1\<rparr>)"

definition MembraneFiltrationUnit_simulate :: "real \<Rightarrow> Component \<Rightarrow> Component" where
  "MembraneFiltrationUnit_simulate deltaTime c =
     (let pathogens_removal = getParameter (inletWater c) PATHOGENS * 0.9999;
          TSS_removal = getParameter (inletWater c) TSS * 0.99;
          w0 = inletWater c;
          w1 = updateParameter w0 PATHOGENS (getParameter (inletWater c) PATHOGENS - pathogens_removal);
          w2 = updateParameter w1 TSS (getParameter (inletWater c) TSS - TSS_removal)
      in c\<lparr>outletWater := w2\<rparr>)"

definition ReverseOsmosisUnit_simulate :: "real \<Rightarrow> Component \<Rightarrow> Component" where
  "ReverseOsmosisUnit_simulate deltaTime c =
     (let salinity_removal = getParameter (inletWater c) SALINITY * 0.95;
          EC_removal = getParameter (inletWater c) EC * 0.95;
          w0 = inletWater c;
          w1 = updateParameter w0 SALINITY (getParameter (inletWater c) SALINITY - salinity_removal);
          w2 = updateParameter w1 EC (getParameter (inletWater c) EC * 0.05)
      in c\<lparr>outletWater := w2\<rparr>)"

text \<open>
  Virtual dispatch of \<^verbatim>\<open>components[i]->simulate(deltaTime)\<close>. \<^verbatim>\<open>Inlet\<close> and
  \<^verbatim>\<open>Outlet\<close> do not override the method and run the one of the base class.
\<close>

definition simulate :: "real \<Rightarrow> Component \<Rightarrow> Component" where
  "simulate deltaTime c =
     (case cls c of
        Inlet \<Rightarrow> Component_simulate deltaTime c
      | Outlet \<Rightarrow> Component_simulate deltaTime c
      | PrimaryClarifier \<Rightarrow> PrimaryClarifier_simulate deltaTime c
      | ElectrocoagulationUnit \<Rightarrow> ElectrocoagulationUnit_simulate deltaTime c
      | Filtration \<Rightarrow> Filtration_simulate deltaTime c
      | AnaerobicAerobicFilter \<Rightarrow> AnaerobicAerobicFilter_simulate deltaTime c
      | OzoneDisinfection \<Rightarrow> OzoneDisinfection_simulate deltaTime c
      | MBR \<Rightarrow> MBR_simulate deltaTime c
      | Biofilter \<Rightarrow> Biofilter_simulate deltaTime c
      | PrimarySedimentationTank \<Rightarrow> PrimarySedimentationTank_simulate deltaTime c
      | AerationTank \<Rightarrow> AerationTank_simulate deltaTime c
      | SecondaryClarifier \<Rightarrow> SecondaryClarifier_simulate deltaTime c
      | ChlorineDisinfectionUnit \<Rightarrow> ChlorineDisinfectionUnit_simulate deltaTime c
      | NitrificationTank \<Rightarrow> NitrificationTank_simulate deltaTime c
      | UVDisinfection \<Rightarrow> UVDisinfection_simulate deltaTime c
      | AnaerobicFilter \<Rightarrow> AnaerobicFilter_simulate deltaTime c
      | CoagulationFlocculation \<Rightarrow> CoagulationFlocculation_simulate deltaTime c
      | MembraneFiltration \<Rightarrow> MembraneFiltration_simulate deltaTime c
      | ChemicalOxidation \<Rightarrow> ChemicalOxidation_simulate deltaTime c
      | ActiveSludgeProcess \<Rightarrow> ActiveSludgeProcess_simulate deltaTime c
      | SludgeDigester \<Rightarrow> SludgeDigester_simulate deltaTime c
      | OilSeparator \<Rightarrow> OilSeparator_simulate deltaTime c
      | PhosphorusRemovalUnit \<Rightarrow> PhosphorusRemovalUnit_simulate deltaTime c
      | DryingBed \<Rightarrow> DryingBed_simulate deltaTime c
      | Pump \<Rightarrow> Pump_simulate deltaTime c
      | FlowMeter \<Rightarrow> FlowMeter_simulate deltaTime c
      | WaterSoftener \<Rightarrow> WaterSoftener_simulate deltaTime c
      | ActivatedCarbonFilter \<Rightarrow> ActivatedCarbonFilter_simulate deltaTime c
      | HeatExchanger \<Rightarrow> HeatExchanger_simulate deltaTime c
      | MetalsRemovalUnit \<Rightarrow> MetalsRemovalUnit_simulate deltaTime c
      | MembraneFiltrationUnit \<Rightarrow> MembraneFiltrationUnit_simulate deltaTime c
      | ReverseOsmosisUnit \<Rightarrow> ReverseOsmosisUnit_simulate deltaTime c)"

section \<open>The simulation step\<close>

text \<open>
  The block of \<^verbatim>\<open>main\<close> that runs once per frame while the simulation is on. Its first
  loop skips index 0 and calls \<^verbatim>\<open>simulate\<close> on every other component; its second loop
  copies the outlet of each component into the inlet of the next one. The components are
  distinct heap objects, so a list of records updated by index stands for the vector of
  pointers.
\<close>

function simulate_loop :: "real \<Rightarrow> nat \<Rightarrow> Component list \<Rightarrow> Component list" where
  "simulate_loop deltaTime i components =
     (if i < length components
      then (if i = 0 then simulate_loop deltaTime (i + 1) components
            else simulate_loop deltaTime (i + 1)
                   (components[i := simulate deltaTime (components ! i)]))
      else components)"
  by pat_completeness auto
termination
  by (relation "measure (\<lambda>(deltaTime, i, components). length components - i)") auto

declare simulate_loop.simps [simp del]

function propagate_loop :: "nat \<Rightarrow> Component list \<Rightarrow> Component list" where
  "propagate_loop i components =
     (if i < length components
      then propagate_loop (i + 1)
             (components[i := (components ! i)\<lparr>inletWater := outletWater (components ! (i - 1))\<rparr>])
      else components)"
  by pat_completeness auto
termination
  by (relation "measure (\<lambda>(i, components). length components - i)") auto

declare propagate_loop.simps [simp del]

definition step :: "real \<Rightarrow> Component list \<Rightarrow> Component list" where
  "step deltaTime components = propagate_loop 1 (simulate_loop deltaTime 0 components)"

text \<open>
  The step as the specification words it: only the units that are neither the first
  (Source) nor the last (Sink) are simulated, then the outlets are propagated. It is
  compared with \<^const>\<open>step\<close> below.
\<close>

definition spec_simulate_pass :: "real \<Rightarrow> Component list \<Rightarrow> Component list" where
  "spec_simulate_pass deltaTime components =
     map (\<lambda>i. if 0 < i \<and> i + 1 < length components
               then simulate deltaTime (components ! i) else components ! i)
         [0 ..< length components]"

definition spec_step :: "real \<Rightarrow> Component list \<Rightarrow> Component list" where
  "spec_step deltaTime components = propagate_loop 1 (spec_simulate_pass deltaTime components)"

section \<open>Parameter histories\<close>

text \<open>
  \<^verbatim>\<open>ParameterHistory\<close> holds a \<^verbatim>\<open>std::deque<float>\<close>, oldest value first, and its
  capacity. \<^verbatim>\<open>pop_front\<close> on an empty deque is undefined behaviour; \<^verbatim>\<open>addValue\<close>
  reaches it only for capacity 0, and the model returns \<^const>\<open>None\<close> there.
\<close>

record ParameterHistory =
  hvalues :: "real list"
  maxSize :: nat

definition new_ParameterHistory :: "nat \<Rightarrow> ParameterHistory" where
  "new_ParameterHistory capacity = \<lparr> hvalues = [], maxSize = capacity \<rparr>"

definition addValue :: "ParameterHistory \<Rightarrow> real \<Rightarrow> ParameterHistory option" where
  "addValue h val =
     (if length (hvalues h) \<ge> maxSize h
      then (case hvalues h of
              [] \<Rightarrow> None
            | oldest # rest \<Rightarrow> Some (h\<lparr>hvalues := rest @ [val]\<rparr>))
      else Some (h\<lparr>hvalues := hvalues h @ [val]\<rparr>))"

fun addValues :: "ParameterHistory \<Rightarrow> real list \<Rightarrow> ParameterHistory option" where
  "addValues h [] = Some h"
| "addValues h (val # vals) =
     (case addValue h val of None \<Rightarrow> None | Some h' \<Rightarrow> addValues h' vals)"

text \<open>
  The global \<^verbatim>\<open>parameterHistories\<close> is a \<^verbatim>\<open>std::map\<close> whose \<^verbatim>\<open>operator[]\<close> inserts a
  history of the default capacity 100 for a key it does not hold yet.
\<close>

type_synonym Histories = "WaterParameter \<rightharpoonup> ParameterHistory"

definition history_at :: "Histories \<Rightarrow> WaterParameter \<Rightarrow> ParameterHistory" where
  "history_at hs param = (case hs param of None \<Rightarrow> new_ParameterHistory 100 | Some h \<Rightarrow> h)"

text \<open>The inner loop of \<^verbatim>\<open>updateHistories\<close> over the entries of one outlet sample, in key order.\<close>

fun record_parameters :: "Water \<Rightarrow> WaterParameter list \<Rightarrow> Histories \<Rightarrow> Histories option" where
  "record_parameters w [] hs = Some hs"
| "record_parameters w (param # params) hs =
     (case addValue (history_at hs param) (w param) of
        None \<Rightarrow> None
      | Some h \<Rightarrow> record_parameters w params (hs(param \<mapsto> h)))"

fun updateHistories :: "Component list \<Rightarrow> Histories \<Rightarrow> Histories option" where
  "updateHistories [] hs = Some hs"
| "updateHistories (cmp # comps) hs =
     (case record_parameters (outletWater cmp) all_parameters hs of
        None \<Rightarrow> None
      | Some hs' \<Rightarrow> updateHistories comps hs')"

text \<open>Recording after several steps: one call of \<^verbatim>\<open>updateHistories\<close> per component vector.\<close>

fun updateHistories_all :: "Component list list \<Rightarrow> Histories \<Rightarrow> Histories option" where
  "updateHistories_all [] hs = Some hs"
| "updateHistories_all (comps # rest) hs =
     (case updateHistories comps hs of
        None \<Rightarrow> None
      | Some hs' \<Rightarrow> updateHistories_all rest hs')"

section \<open>Tables read off the transfer functions\<close>

text \<open>The parameters that the \<^verbatim>\<open>simulate\<close> of a class writes with \<^verbatim>\<open>updateParameter\<close>.\<close>

fun targets :: "ComponentClass \<Rightarrow> WaterParameter set" where
  "targets Inlet = {}"
| "targets Outlet = {}"
| "targets PrimaryClarifier = {TSS, OIL, TURBIDITY}"
| "targets ElectrocoagulationUnit = {METALS, TSS, PH, EC}"
| "targets Filtration = {TSS, TURBIDITY}"
| "targets AnaerobicAerobicFilter = {BOD, COD, NH4, NO3, DO}"
| "targets OzoneDisinfection = {PATHOGENS, COD, TSS}"
| "targets MBR = {BOD, COD, NH4, NO3, DO}"
| "targets Biofilter = {BOD, COD, NH4, NO3, DO}"
| "targets PrimarySedimentationTank = {TSS, BOD, TURBIDITY, PATHOGENS}"
| "targets AerationTank = {BOD, NH4, NO3, DO}"
| "targets SecondaryClarifier = {TSS, TURBIDITY}"
| "targets ChlorineDisinfectionUnit = {PATHOGENS, RESIDUAL_CHLORINE, CHLORIDES}"
| "targets NitrificationTank = {NH4, NO3, ALKALINITY}"
| "targets UVDisinfection = {PATHOGENS}"
| "targets AnaerobicFilter = {COD}"
| "targets CoagulationFlocculation = {COD, TSS}"
| "targets MembraneFiltration = {COD, TSS, PATHOGENS}"
| "targets ChemicalOxidation = {COD, TURBIDITY}"
| "targets ActiveSludgeProcess = {BOD, NH4, NO3, DO, COD}"
| "targets SludgeDigester = {TSS}"
| "targets OilSeparator = {OIL, TURBIDITY}"
| "targets PhosphorusRemovalUnit = {P, TSS}"
| "targets DryingBed = {TSS}"
| "targets Pump = {}"
| "targets FlowMeter = {}"
| "targets WaterSoftener = {HARDNESS}"
| "targets ActivatedCarbonFilter = {COD}"
| "targets HeatExchanger = {TEMP}"
| "targets MetalsRemovalUnit = {METALS}"
| "targets MembraneFiltrationUnit = {PATHOGENS, TSS}"
| "targets ReverseOsmosisUnit = {SALINITY, EC}"

text \<open>The classes with first-order kinetics and the temperature factor.\<close>

definition kinetic_family :: "ComponentClass \<Rightarrow> bool" where
  "kinetic_family k \<longleftrightarrow>
     k = AerationTank \<or> k = Biofilter \<or> k = AnaerobicAerobicFilter \<or> k = MBR
     \<or> k = ActiveSludgeProcess \<or> k = NitrificationTank"

text \<open>
  The removal fractions that the physical-separation classes (clarifiers, sedimentation,
  filters, oil separator, membrane units) have as constants in their \<^verbatim>\<open>simulate\<close>.
\<close>

definition builtin_efficiency :: "ComponentClass \<Rightarrow> WaterParameter \<rightharpoonup> real" where
  "builtin_efficiency k =
     (case k of
        PrimaryClarifier \<Rightarrow> [TSS \<mapsto> 0.70, OIL \<mapsto> 0.90]
      | Filtration \<Rightarrow> [TSS \<mapsto> 0.80, TURBIDITY \<mapsto> 0.70]
      | PrimarySedimentationTank \<Rightarrow> [TSS \<mapsto> 0.60, BOD \<mapsto> 0.35, PATHOGENS \<mapsto> 0.60]
      | SecondaryClarifier \<Rightarrow> [TSS \<mapsto> 0.85]
      | OilSeparator \<Rightarrow> [OIL \<mapsto> 0.90]
      | MembraneFiltration \<Rightarrow> [COD \<mapsto> 0.20, TSS \<mapsto> 0.45, PATHOGENS \<mapsto> 0.9999]
      | MembraneFiltrationUnit \<Rightarrow> [PATHOGENS \<mapsto> 0.9999, TSS \<mapsto> 0.99]
      | _ \<Rightarrow> Map.empty)"



section \<open>Float arithmetic with infinities and NaN\<close>

text \<open>
  The values of a \<^verbatim>\<open>float\<close> that decide whether the clamp of the dissolved oxygen
  fires: finite numbers, the two infinities and NaN. A finite result that reaches the
  overflow threshold \<open>2 ^ 128 - 2 ^ 103\<close> of the 32-bit format becomes an infinity;
  below it the result is kept exact, so rounding error, subnormal numbers and the sign of
  zero are not modelled. The operations follow IEEE 754: NaN propagates, zero times
  infinity and infinity minus infinity are NaN, and every comparison with NaN is false.
  \<^verbatim>\<open>f_pow\<close> is \<^verbatim>\<open>std::pow\<close> for a finite base greater than 1.
\<close>

datatype float32 = Finite real | PlusInf | MinusInf | NaN

definition overflow_threshold :: real where
  "overflow_threshold = 2 ^ 128 - 2 ^ 103"

definition round_float :: "real \<Rightarrow> float32" where
  "round_float x =
     (if overflow_threshold \<le> x then PlusInf
      else if x \<le> - overflow_threshold then MinusInf
      else Finite x)"

fun f_neg :: "float32 \<Rightarrow> float32" where
  "f_neg (Finite a) = Finite (- a)"
| "f_neg PlusInf = MinusInf"
| "f_neg MinusInf = PlusInf"
| "f_neg NaN = NaN"

fun f_add :: "float32 \<Rightarrow> float32 \<Rightarrow> float32" where
  "f_add NaN y = NaN"
| "f_add x NaN = NaN"
| "f_add (Finite a) (Finite b) = round_float (a + b)"
| "f_add (Finite a) PlusInf = PlusInf"
| "f_add (Finite a) MinusInf = MinusInf"
| "f_add PlusInf (Finite b) = PlusInf"
| "f_add MinusInf (Finite b) = MinusInf"
| "f_add PlusInf PlusInf = PlusInf"
| "f_add MinusInf MinusInf = MinusInf"
| "f_add PlusInf MinusInf = NaN"
| "f_add MinusInf PlusInf = NaN"

definition f_sub :: "float32 \<Rightarrow> float32 \<Rightarrow> float32" where
  "f_sub x y = f_add x (f_neg y)"

fun f_mul :: "float32 \<Rightarrow> float32 \<Rightarrow> float32" where
  "f_mul NaN y = NaN"
| "f_mul x NaN = NaN"
| "f_mul (Finite a) (Finite b) = round_float (a * b)"
| "f_mul (Finite a) PlusInf = (if a = 0 then NaN else if 0 < a then PlusInf else MinusInf)"
| "f_mul (Finite a) MinusInf = (if a = 0 then NaN else if 0 < a then MinusInf else PlusInf)"
| "f_mul PlusInf (Finite b) = (if b = 0 then NaN else if 0 < b then PlusInf else MinusInf)"
| "f_mul MinusInf (Finite b) = (if b = 0 then NaN else if 0 < b then MinusInf else PlusInf)"
| "f_mul PlusInf PlusInf = PlusInf"
| "f_mul MinusInf MinusInf = PlusInf"
| "f_mul PlusInf MinusInf = MinusInf"
| "f_mul MinusInf PlusInf = MinusInf"

fun f_exp :: "float32 \<Rightarrow> float32" where
  "f_exp (Finite a) = round_float (exp a)"
| "f_exp PlusInf = PlusInf"
| "f_exp MinusInf = Finite 0"
| "f_exp NaN = NaN"

fun f_pow :: "real \<Rightarrow> float32 \<Rightarrow> float32" where
  "f_pow b (Finite a) = round_float (b powr a)"
| "f_pow b PlusInf = PlusInf"
| "f_pow b MinusInf = Finite 0"
| "f_pow b NaN = NaN"

fun f_less :: "float32 \<Rightarrow> float32 \<Rightarrow> bool" where
  "f_less NaN y = False"
| "f_less x NaN = False"
| "f_less (Finite a) (Finite b) = (a < b)"
| "f_less (Finite a) PlusInf = True"
| "f_less (Finite a) MinusInf = False"
| "f_less PlusInf y = False"
| "f_less MinusInf MinusInf = False"
| "f_less MinusInf y = True"

fun f_ge :: "float32 \<Rightarrow> float32 \<Rightarrow> bool" where
  "f_ge NaN y = False"
| "f_ge x NaN = False"
| "f_ge (Finite a) (Finite b) = (a \<ge> b)"
| "f_ge (Finite a) PlusInf = False"
| "f_ge (Finite a) MinusInf = True"
| "f_ge PlusInf y = True"
| "f_ge MinusInf MinusInf = True"
| "f_ge MinusInf y = False"

text \<open>
  \<^verbatim>\<open>AerationTank::simulate\<close> once more, statement by statement, over these values; the
  first argument is the \<^verbatim>\<open>HRT\<close> of the unit, the second its inlet sample, the result its
  outlet sample.
\<close>

type_synonym FloatWater = "WaterParameter \<Rightarrow> float32"

definition AerationTank_simulate_float :: "float32 \<Rightarrow> FloatWater \<Rightarrow> FloatWater" where
  "AerationTank_simulate_float HRT_f inlet =
     (let k_bod = Finite 0.2;
          k_nh4 = Finite 0.1;
          tempFactor = f_pow 1.035 (f_sub (inlet TEMP) (Finite 20.0));
          BOD_in = inlet BOD;
          NH4_in = inlet NH4;
          BOD_removal = f_mul BOD_in (f_sub (Finite 1) (f_exp (f_mul (f_mul (f_neg k_bod) HRT_f) tempFactor)));
          NH4_removal = f_mul NH4_in (f_sub (Finite 1) (f_exp (f_mul (f_mul (f_neg k_nh4) HRT_f) tempFactor)));
          w0 = inlet;
          w1 = w0(BOD := f_sub BOD_in BOD_removal);
          w2 = w1(NH4 := f_sub NH4_in NH4_removal);
          w3 = w2(NO3 := f_add (inlet NO3) (f_mul NH4_removal (Finite 0.9)));
          DO_consumed = f_mul (f_add BOD_removal (f_mul NH4_removal (Finite 4.57))) (Finite 1.5);
          w4 = w3(DO := f_sub (inlet DO) DO_consumed);
          w5 = (if f_less (w4 DO) (Finite 0) then w4(DO := Finite 0) else w4)
      in w5)"

text \<open>The default influent at 3000 degrees, every value finite and not negative.\<close>

definition hot_inlet :: FloatWater where
  "hot_inlet = (\<lambda>param. Finite (Water_default param))(TEMP := Finite 3000)"

text \<open>
  The invariant of the histories: every deque has a positive capacity and does not exceed it.
\<close>

definition histories_ok :: "Histories \<Rightarrow> bool" where
  "histories_ok hs \<longleftrightarrow>
     (\<forall>p. 0 < maxSize (history_at hs p) \<and> length (hvalues (history_at hs p)) \<le> maxSize (history_at hs p))"

section \<open>Facts about the transfer functions\<close>

lemmas simulate_defs =
  Component_simulate_def PrimaryClarifier_simulate_def ElectrocoagulationUnit_simulate_def
  Filtration_simulate_def AnaerobicAerobicFilter_simulate_def OzoneDisinfection_simulate_def
  MBR_simulate_def Biofilter_simulate_def PrimarySedimentationTank_simulate_def
  AerationTank_simulate_def SecondaryClarifier_simulate_def ChlorineDisinfectionUnit_simulate_def
  NitrificationTank_simulate_def UVDisinfection_simulate_def AnaerobicFilter_simulate_def
  CoagulationFlocculation_simulate_def MembraneFiltration_simulate_def ChemicalOxidation_simulate_def
  ActiveSludgeProcess_simulate_def SludgeDigester_simulate_def OilSeparator_simulate_def
  PhosphorusRemovalUnit_simulate_def DryingBed_simulate_def Pump_simulate_def FlowMeter_simulate_def
  WaterSoftener_simulate_def ActivatedCarbonFilter_simulate_def HeatExchanger_simulate_def
  MetalsRemovalUnit_simulate_def MembraneFiltrationUnit_simulate_def ReverseOsmosisUnit_simulate_def
  updateParameter_def getParameter_def Let_def

lemma simulate_frame:
  "p \<notin> targets (cls c) \<Longrightarrow> outletWater (simulate deltaTime c) p = inletWater c p"
  by (cases "cls c") (simp_all add: simulate_def simulate_defs)

lemma simulate_only_outlet:
  "simulate deltaTime c = c\<lparr>outletWater := outletWater (simulate deltaTime c)\<rparr>"
  by (cases "cls c") (simp_all add: simulate_def simulate_defs)

lemma simulate_temperature:
  "simulate deltaTime (c\<lparr>temperature := t\<rparr>) = (simulate deltaTime c)\<lparr>temperature := t\<rparr>"
  by (cases "cls c") (simp_all add: simulate_def simulate_defs)

lemma simulate_removalEfficiencies:
  "simulate deltaTime (c\<lparr>removalEfficiencies := m\<rparr>) = (simulate deltaTime c)\<lparr>removalEfficiencies := m\<rparr>"
  by (cases "cls c") (simp_all add: simulate_def simulate_defs)

lemma all_WaterParameter:
  "(\<forall>p. Q p) \<longleftrightarrow>
     Q BOD \<and> Q COD \<and> Q TSS \<and> Q NH4 \<and> Q NO3 \<and> Q PH \<and> Q P \<and> Q OIL \<and> Q DO \<and> Q TEMP
     \<and> Q PATHOGENS \<and> Q SALINITY \<and> Q TURBIDITY \<and> Q EC \<and> Q ALKALINITY
     \<and> Q RESIDUAL_CHLORINE \<and> Q HARDNESS \<and> Q SULFATES \<and> Q CHLORIDES \<and> Q METALS"
proof
  assume h: "Q BOD \<and> Q COD \<and> Q TSS \<and> Q NH4 \<and> Q NO3 \<and> Q PH \<and> Q P \<and> Q OIL \<and> Q DO \<and> Q TEMP
     \<and> Q PATHOGENS \<and> Q SALINITY \<and> Q TURBIDITY \<and> Q EC \<and> Q ALKALINITY
     \<and> Q RESIDUAL_CHLORINE \<and> Q HARDNESS \<and> Q SULFATES \<and> Q CHLORIDES \<and> Q METALS"
  show "\<forall>p. Q p"
  proof
    fix p show "Q p" using h by (cases p) simp_all
  qed
qed simp

lemma DO_nonneg:
  "kinetic_family (cls c) \<Longrightarrow> 0 \<le> inletWater c DO \<Longrightarrow> 0 \<le> outletWater (simulate deltaTime c) DO"
  unfolding kinetic_family_def
  by (elim disjE) (simp_all add: simulate_def simulate_defs)

section \<open>Facts about the two loops of the step\<close>

lemma simulate_loop_length [simp]:
  "length (simulate_loop deltaTime i cs) = length cs"
  by (induction deltaTime i cs rule: simulate_loop.induct)
     (subst simulate_loop.simps, simp)

lemma simulate_loop_nth:
  "j < length cs \<Longrightarrow>
   simulate_loop deltaTime i cs ! j =
     (if i \<le> j \<and> 0 < j then simulate deltaTime (cs ! j) else cs ! j)"
proof (induction deltaTime i cs rule: simulate_loop.induct)
  case (1 deltaTime i components)
  show ?case
  proof (cases "i < length components")
    case False
    with "1.prems" show ?thesis by (subst simulate_loop.simps) simp
  next
    case True
    show ?thesis
    proof (cases "i = 0")
      case True
      with \<open>i < length components\<close> "1.IH"(1) "1.prems" show ?thesis
        by (subst simulate_loop.simps) auto
    next
      case False
      with \<open>i < length components\<close> "1.IH"(2) "1.prems" show ?thesis
        by (subst simulate_loop.simps, cases "i = j") (auto simp: nth_list_update)
    qed
  qed
qed

lemma propagate_loop_length [simp]:
  "length (propagate_loop i cs) = length cs"
  by (induction i cs rule: propagate_loop.induct)
     (subst propagate_loop.simps, simp)

lemma propagate_loop_nth:
  "j < length cs \<Longrightarrow>
   propagate_loop i cs ! j =
     (if i \<le> j then (cs ! j)\<lparr>inletWater := outletWater (cs ! (j - 1))\<rparr> else cs ! j)"
proof (induction i cs rule: propagate_loop.induct)
  case (1 i components)
  show ?case
  proof (cases "i < length components")
    case False
    with "1.prems" show ?thesis by (subst propagate_loop.simps) simp
  next
    case True
    with "1.IH" "1.prems" show ?thesis
      by (subst propagate_loop.simps, cases "i = j") (auto simp: nth_list_update)
  qed
qed

lemma step_length [simp]: "length (step deltaTime cs) = length cs"
  by (simp add: step_def)

lemma step_nth:
  "j < length cs \<Longrightarrow>
   step deltaTime cs ! j =
     (if j = 0 then cs ! 0
      else (simulate deltaTime (cs ! j))
             \<lparr>inletWater := outletWater (if j = 1 then cs ! 0 else simulate deltaTime (cs ! (j - 1)))\<rparr>)"
  by (cases "j = 0") (auto simp: step_def propagate_loop_nth simulate_loop_nth)

lemma spec_simulate_pass_length [simp]:
  "length (spec_simulate_pass deltaTime cs) = length cs"
  by (simp add: spec_simulate_pass_def)

lemma spec_simulate_pass_nth:
  "j < length cs \<Longrightarrow>
   spec_simulate_pass deltaTime cs ! j =
     (if 0 < j \<and> j + 1 < length cs then simulate deltaTime (cs ! j) else cs ! j)"
  by (auto simp: spec_simulate_pass_def)

lemma spec_step_length [simp]: "length (spec_step deltaTime cs) = length cs"
  by (simp add: spec_step_def)

lemma spec_step_nth:
  "j < length cs \<Longrightarrow>
   spec_step deltaTime cs ! j =
     (if j = 0 then cs ! 0
      else (if j + 1 < length cs then simulate deltaTime (cs ! j) else cs ! j)
             \<lparr>inletWater := outletWater (if j = 1 \<or> j + 1 > length cs then cs ! (j - 1) else simulate deltaTime (cs ! (j - 1)))\<rparr>)"
  by (cases "j = 0") (auto simp: spec_step_def propagate_loop_nth spec_simulate_pass_nth)

section \<open>Facts about the histories\<close>

lemma addValue_within:
  assumes "0 < maxSize h" "length (hvalues h) \<le> maxSize h"
  shows "addValue h v =
           Some (h\<lparr>hvalues := drop (length (hvalues h) + 1 - maxSize h) (hvalues h @ [v])\<rparr>)"
proof (cases "length (hvalues h) < maxSize h")
  case True
  then show ?thesis by (simp add: addValue_def)
next
  case False
  with assms have full: "length (hvalues h) = maxSize h" by simp
  with assms(1) obtain y ys where ys: "hvalues h = y # ys" by (cases "hvalues h") auto
  with full show ?thesis by (simp add: addValue_def)
qed

lemma addValues_within:
  "0 < maxSize h \<Longrightarrow> length (hvalues h) \<le> maxSize h \<Longrightarrow>
   addValues h vals =
     Some (h\<lparr>hvalues := drop (length (hvalues h) + length vals - maxSize h) (hvalues h @ vals)\<rparr>)"
proof (induction vals arbitrary: h)
  case Nil
  then show ?case by simp
next
  case (Cons v vals)
  let ?h1 = "h\<lparr>hvalues := drop (length (hvalues h) + 1 - maxSize h) (hvalues h @ [v])\<rparr>"
  have a: "addValue h v = Some ?h1" using Cons.prems by (rule addValue_within)
  have m: "0 < maxSize ?h1" "length (hvalues ?h1) \<le> maxSize ?h1"
    using Cons.prems by auto
  have "addValues ?h1 vals =
     Some (?h1\<lparr>hvalues := drop (length (hvalues ?h1) + length vals - maxSize ?h1) (hvalues ?h1 @ vals)\<rparr>)"
    using m by (rule Cons.IH)
  moreover have "drop (length (hvalues ?h1) + length vals - maxSize ?h1) (hvalues ?h1 @ vals)
      = drop (length (hvalues h) + length (v # vals) - maxSize h) (hvalues h @ v # vals)"
  proof (cases "length (hvalues h) < maxSize h")
    case True
    then show ?thesis by simp
  next
    case False
    with Cons.prems have full: "length (hvalues h) = maxSize h" by simp
    with Cons.prems(1) obtain y ys where ys: "hvalues h = y # ys" by (cases "hvalues h") auto
    with full show ?thesis by simp
  qed
  ultimately show ?case using a by simp
qed

lemma addValues_append:
  "addValues h (xs @ ys) = (case addValues h xs of None \<Rightarrow> None | Some h' \<Rightarrow> addValues h' ys)"
  by (induction xs arbitrary: h) (auto split: option.splits)

lemma addValue_ok:
  assumes "0 < maxSize h" "length (hvalues h) \<le> maxSize h"
  shows "\<exists>h'. addValue h v = Some h' \<and> 0 < maxSize h' \<and> length (hvalues h') \<le> maxSize h'"
  using assms by (simp add: addValue_within)

lemma record_parameters_project:
  "histories_ok hs \<Longrightarrow> distinct ps \<Longrightarrow>
   \<exists>hs'. record_parameters w ps hs = Some hs' \<and> histories_ok hs' \<and>
     (\<forall>p. Some (history_at hs' p) =
            (if p \<in> set ps then addValue (history_at hs p) (w p) else Some (history_at hs p)))"
proof (induction ps arbitrary: hs)
  case Nil
  then show ?case by simp
next
  case (Cons q ps)
  from Cons.prems(1) obtain h where h: "addValue (history_at hs q) (w q) = Some h"
      "0 < maxSize h" "length (hvalues h) \<le> maxSize h"
    using addValue_ok unfolding histories_ok_def by blast
  have at: "\<And>p. history_at (hs(q \<mapsto> h)) p = (if p = q then h else history_at hs p)"
    by (simp add: history_at_def)
  have ok: "histories_ok (hs(q \<mapsto> h))"
    using Cons.prems(1) h unfolding histories_ok_def at by simp
  from Cons.prems(2) have d: "distinct ps" "q \<notin> set ps" by simp_all
  from Cons.IH[OF ok d(1)] obtain hs' where hs':
    "record_parameters w ps (hs(q \<mapsto> h)) = Some hs'" "histories_ok hs'"
    "\<And>p. Some (history_at hs' p) =
            (if p \<in> set ps then addValue (history_at (hs(q \<mapsto> h)) p) (w p)
             else Some (history_at (hs(q \<mapsto> h)) p))"
    by blast
  have "\<And>p. Some (history_at hs' p) =
            (if p \<in> set (q # ps) then addValue (history_at hs p) (w p) else Some (history_at hs p))"
    using hs'(3) d(2) h(1) by (auto simp: at)
  with hs'(1,2) h(1) show ?case by simp
qed

lemma all_parameters_distinct: "distinct all_parameters"
  by (simp add: all_parameters_def)

lemma all_parameters_complete: "p \<in> set all_parameters"
  by (cases p) (simp_all add: all_parameters_def)

lemma updateHistories_project:
  "histories_ok hs \<Longrightarrow>
   \<exists>hs'. updateHistories comps hs = Some hs' \<and> histories_ok hs' \<and>
     (\<forall>p. Some (history_at hs' p) =
            addValues (history_at hs p) (map (\<lambda>c. outletWater c p) comps))"
proof (induction comps arbitrary: hs)
  case Nil
  then show ?case by simp
next
  case (Cons c comps)
  from record_parameters_project[OF Cons.prems all_parameters_distinct, of "outletWater c"]
  obtain hs1 where hs1: "record_parameters (outletWater c) all_parameters hs = Some hs1"
    "histories_ok hs1"
    "\<And>p. Some (history_at hs1 p) = addValue (history_at hs p) (outletWater c p)"
    by (auto simp: all_parameters_complete)
  from Cons.IH[OF hs1(2)] obtain hs' where hs': "updateHistories comps hs1 = Some hs'"
    "histories_ok hs'"
    "\<And>p. Some (history_at hs' p) = addValues (history_at hs1 p) (map (\<lambda>c. outletWater c p) comps)"
    by blast
  have "\<And>p. Some (history_at hs' p) =
            addValues (history_at hs p) (map (\<lambda>c. outletWater c p) (c # comps))"
    using hs'(3) hs1(3)[symmetric] by simp
  with hs1(1) hs'(1,2) show ?case by simp
qed

lemma updateHistories_all_project:
  "histories_ok hs \<Longrightarrow>
   \<exists>hs'. updateHistories_all css hs = Some hs' \<and> histories_ok hs' \<and>
     (\<forall>p. Some (history_at hs' p) =
            addValues (history_at hs p) (concat (map (map (\<lambda>c. outletWater c p)) css)))"
proof (induction css arbitrary: hs)
  case Nil
  then show ?case by simp
next
  case (Cons comps css)
  from updateHistories_project[OF Cons.prems, of comps]
  obtain hs1 where hs1: "updateHistories comps hs = Some hs1" "histories_ok hs1"
    "\<And>p. Some (history_at hs1 p) = addValues (history_at hs p) (map (\<lambda>c. outletWater c p) comps)"
    by blast
  from Cons.IH[OF hs1(2)] obtain hs' where hs': "updateHistories_all css hs1 = Some hs'"
    "histories_ok hs'"
    "\<And>p. Some (history_at hs' p) =
        addValues (history_at hs1 p) (concat (map (map (\<lambda>c. outletWater c p)) css))"
    by blast
  have "\<And>p. Some (history_at hs' p) =
        addValues (history_at hs p) (concat (map (map (\<lambda>c. outletWater c p)) (comps # css)))"
    using hs'(3) hs1(3)[symmetric] by (simp add: addValues_append)
  with hs1(1) hs'(1,2) show ?case by simp
qed

lemma histories_ok_empty: "histories_ok Map.empty"
  by (simp add: histories_ok_def history_at_def new_ParameterHistory_def)

section \<open>Bounds on the exponential\<close>

lemma exp_two_sum: "(\<Sum>m<12. (2::real) ^ m / fact m) = 164591 / 22275"
  by (simp add: lessThan_nat_numeral sum.lessThan_Suc fact_numeral)

lemma exp_two_bounds: "164591 / 22275 \<le> exp (2::real) \<and> exp (2::real) \<le> 7.3892"
proof -
  from Maclaurin_exp_le[of 2 12] obtain t :: real where
    t: "\<bar>t\<bar> \<le> \<bar>2\<bar>" and e: "exp 2 = (\<Sum>m<12. (2::real) ^ m / fact m) + (exp t / fact 12) * 2 ^ 12"
    by blast
  have e': "exp (2::real) = 164591 / 22275 + exp t * (4 / 467775)"
    using e unfolding exp_two_sum by (simp add: fact_numeral)
  have "0 < exp t" by simp
  have "exp t \<le> exp 2" using t by simp
  have lo: "164591 / 22275 \<le> exp (2::real)" using e' \<open>0 < exp t\<close> by simp
  have "exp (2::real) \<le> 164591 / 22275 + exp 2 * (4 / 467775)"
    using e' \<open>exp t \<le> exp 2\<close> by simp
  then have "exp (2::real) \<le> 7.3892" by simp
  with lo show ?thesis by simp
qed

lemma exp_minus_two_approx: "\<bar>300 * exp (- (2::real)) - 40.6\<bar> < 0.01"
proof -
  define y :: real where "y = 300 / exp 2"
  have pos: "0 < exp (2::real)" by simp
  have eq: "300 * exp (- (2::real)) = y" by (simp add: y_def exp_minus inverse_eq_divide)
  from exp_two_bounds have lo: "7.389 < exp (2::real)" and hi: "exp (2::real) < 7.3909" by simp_all
  have "y < 40.61"
    unfolding y_def using lo pos by (simp add: divide_less_eq)
  moreover have "40.59 < y"
    unfolding y_def using hi pos by (simp add: less_divide_eq)
  ultimately have "\<bar>y - 40.6\<bar> < 0.01" unfolding abs_less_iff by simp
  then show ?thesis unfolding eq .
qed

section \<open>The temperature factor overflows\<close>

lemma tempFactor_overflows: "overflow_threshold \<le> (1.035::real) powr 2980"
proof -
  define n :: nat where "n = 21 * 141 + 19"
  have rn: "real n = 2980" by (simp add: n_def)
  have p21: "(2::real) \<le> 1.035 ^ 21" by (simp add: power_divide)
  have "overflow_threshold \<le> (2::real) ^ 141" by (simp add: overflow_threshold_def)
  also have "(2::real) ^ 141 \<le> (1.035 ^ 21) ^ 141"
    by (rule power_mono[OF p21]) simp
  also have "((1.035::real) ^ 21) ^ 141 = 1.035 ^ (21 * 141)"
    by (rule power_mult[symmetric])
  also have "(1.035::real) ^ (21 * 141) \<le> 1.035 ^ n"
    by (rule power_increasing) (simp_all add: n_def)
  also have "(1.035::real) ^ n = 1.035 powr real n"
    by (rule powr_realpow[symmetric]) simp
  finally show ?thesis unfolding rn .
qed

lemma hot_tempFactor: "f_pow 1.035 (f_sub (hot_inlet TEMP) (Finite 20.0)) = PlusInf"
proof -
  have "f_sub (hot_inlet TEMP) (Finite 20.0) = Finite 2980"
    by (simp add: hot_inlet_def f_sub_def round_float_def overflow_threshold_def)
  then show ?thesis
    using tempFactor_overflows by (simp only: f_pow.simps round_float_def if_True)
qed

text \<open>A class with built-in removal fractions applies them to the inlet value.\<close>

lemma builtin_efficiency_used:
  "p \<in> dom (builtin_efficiency (cls c)) \<Longrightarrow>
   outletWater (simulate deltaTime c) p = inletWater c p * (1 - the (builtin_efficiency (cls c) p))"
  by (cases "cls c")
     (auto simp: builtin_efficiency_def simulate_def simulate_defs split: if_splits)

section \<open>Removal-efficiency overrides\<close>

text \<open>
  Claim C1 asks a physical-separation unit to use the override that its configuration
  holds for a parameter in place of the built-in constant. The component has the map
  \<^verbatim>\<open>removalEfficiencies\<close>, its two setters and a slider for every parameter, but no
  \<^verbatim>\<open>simulate\<close> reads the map. A primary clarifier with the override 0.5 for TSS and the
  default inlet (TSS 200) delivers TSS 60, the built-in 70 percent, and not
  \<open>200 * (1 - 0.5) = 100\<close>.
\<close>

theorem override_not_applied:
  "removalEfficiencies (addRemovalEfficiency (new_Component PrimaryClarifier) TSS 0.5) TSS = Some 0.5
   \<and> inletWater (addRemovalEfficiency (new_Component PrimaryClarifier) TSS 0.5) TSS = 200
   \<and> outletWater (simulate 0.016 (addRemovalEfficiency (new_Component PrimaryClarifier) TSS 0.5)) TSS = 60
   \<and> outletWater (simulate 0.016 (addRemovalEfficiency (new_Component PrimaryClarifier) TSS 0.5)) TSS
       \<noteq> inletWater (addRemovalEfficiency (new_Component PrimaryClarifier) TSS 0.5) TSS * (1 - 0.5)"
  by (simp add: addRemovalEfficiency_def new_Component_def simulate_def simulate_defs)

text \<open>
  The same holds of every unit and every map of overrides: the outlet does not depend on
  the map, and a unit with a built-in fraction for a parameter applies that fraction.
\<close>

lemma overrides_never_read:
  "outletWater (simulate deltaTime (c\<lparr>removalEfficiencies := m\<rparr>)) = outletWater (simulate deltaTime c)
   \<and> (builtin_efficiency (cls c) p = Some e \<longrightarrow>
        outletWater (simulate deltaTime (c\<lparr>removalEfficiencies := m\<rparr>)) p = inletWater c p * (1 - e))"
proof
  show "outletWater (simulate deltaTime (c\<lparr>removalEfficiencies := m\<rparr>)) = outletWater (simulate deltaTime c)"
    by (simp add: simulate_removalEfficiencies)
  show "builtin_efficiency (cls c) p = Some e \<longrightarrow>
        outletWater (simulate deltaTime (c\<lparr>removalEfficiencies := m\<rparr>)) p = inletWater c p * (1 - e)"
  proof
    assume be: "builtin_efficiency (cls c) p = Some e"
    then have "p \<in> dom (builtin_efficiency (cls c))" by blast
    from builtin_efficiency_used[OF this, of deltaTime] be
    show "outletWater (simulate deltaTime (c\<lparr>removalEfficiencies := m\<rparr>)) p = inletWater c p * (1 - e)"
      by (simp add: simulate_removalEfficiencies)
  qed
qed

section \<open>Non-negative concentrations\<close>

text \<open>
  Claim C2 asks for non-negative concentrations at the outlet of every unit when the inlet
  is non-negative. The nitrification tank subtracts 0.5 from the alkalinity without the
  clamp that the units consuming dissolved oxygen apply: with every inlet value
  non-negative and alkalinity 0, the outlet alkalinity is \<open>- 0.5\<close>.
\<close>

theorem nitrification_alkalinity_negative:
  "(\<forall>p. 0 \<le> inletWater ((new_Component NitrificationTank)
                \<lparr>inletWater := updateParameter Water_default ALKALINITY 0\<rparr>) p)
   \<and> outletWater (simulate 0.016 ((new_Component NitrificationTank)
                \<lparr>inletWater := updateParameter Water_default ALKALINITY 0\<rparr>)) ALKALINITY = - 0.5"
  by (simp add: all_WaterParameter new_Component_def simulate_def simulate_defs)

section \<open>The order of simulation and propagation\<close>

text \<open>
  Claim C3, as amended. For a unit at an index \<open>i\<close> after the Source, one step first
  simulates it from its own inlet as it was before the step, then overwrites its inlet with
  the outlet of its predecessor. So its outlet after the step is its transfer function on
  its own pre-step inlet, and two chains that agree on this unit give it the same outlet,
  whatever its predecessor computes during the step. After the step its inlet equals the
  predecessor's outlet. When its pre-step inlet equals the predecessor's pre-step outlet,
  its outlet is the transfer function on that outlet; this is so in every step that
  directly follows another step.
\<close>

theorem step_uses_own_inlet:
  assumes "0 < i" and "i < length cs"
  shows "simulate_loop deltaTime 0 cs ! i = simulate deltaTime (cs ! i)
     \<and> step deltaTime cs ! i =
         (simulate deltaTime (cs ! i))\<lparr>inletWater := outletWater (simulate_loop deltaTime 0 cs ! (i - 1))\<rparr>
     \<and> outletWater (step deltaTime cs ! i) = outletWater (simulate deltaTime (cs ! i))
     \<and> inletWater (step deltaTime cs ! i) = outletWater (step deltaTime cs ! (i - 1))
     \<and> (inletWater (cs ! i) = outletWater (cs ! (i - 1)) \<longrightarrow>
          outletWater (step deltaTime cs ! i) =
            outletWater (simulate deltaTime ((cs ! i)\<lparr>inletWater := outletWater (cs ! (i - 1))\<rparr>)))
     \<and> outletWater (step deltaTime (step deltaTime cs) ! i) =
          outletWater (simulate deltaTime
            ((step deltaTime cs ! i)\<lparr>inletWater := outletWater (step deltaTime cs ! (i - 1))\<rparr>))
     \<and> (length cs' = length cs \<and> cs' ! i = cs ! i \<longrightarrow>
          outletWater (step deltaTime cs' ! i) = outletWater (step deltaTime cs ! i))"
proof (intro conjI impI)
  show "simulate_loop deltaTime 0 cs ! i = simulate deltaTime (cs ! i)"
    using assms by (simp add: simulate_loop_nth)
  show "step deltaTime cs ! i =
         (simulate deltaTime (cs ! i))\<lparr>inletWater := outletWater (simulate_loop deltaTime 0 cs ! (i - 1))\<rparr>"
    using assms by (simp add: step_def propagate_loop_nth simulate_loop_nth)
  have o: "outletWater (step deltaTime xs ! i) = outletWater (simulate deltaTime (xs ! i))"
    if "length xs = length cs" for xs
    using assms that by (simp add: step_nth)
  show "outletWater (step deltaTime cs ! i) = outletWater (simulate deltaTime (cs ! i))"
    by (rule o) simp
  show link: "inletWater (step deltaTime cs ! i) = outletWater (step deltaTime cs ! (i - 1))"
    using assms by (auto simp: step_nth)
  have same: "c\<lparr>inletWater := w\<rparr> = c" if "inletWater c = w" for c :: Component and w
    using that by (metis Component.surjective Component.update_convs(7))
  show "outletWater (step deltaTime cs ! i) =
            outletWater (simulate deltaTime ((cs ! i)\<lparr>inletWater := outletWater (cs ! (i - 1))\<rparr>))"
    if "inletWater (cs ! i) = outletWater (cs ! (i - 1))"
    using o[of cs] same[OF that] by simp
  show "outletWater (step deltaTime (step deltaTime cs) ! i) =
          outletWater (simulate deltaTime
            ((step deltaTime cs ! i)\<lparr>inletWater := outletWater (step deltaTime cs ! (i - 1))\<rparr>))"
    using o[of "step deltaTime cs"] same[OF link] by simp
  show "outletWater (step deltaTime cs' ! i) = outletWater (step deltaTime cs ! i)"
    if "length cs' = length cs \<and> cs' ! i = cs ! i"
    using o[of cs'] o[of cs] that by simp
qed

text \<open>
  An instance: the fresh chain of inlet, primary clarifier, filtration and outlet. After
  one step the filtration has the outlet TSS 40, from the pre-step outlet 200 of the
  clarifier; on the outlet 60 that the clarifier computes during the step its transfer
  function would give 12.
\<close>

theorem step_uses_own_inlet_witness:
  "(0::nat) < 2
   \<and> 2 < length [new_Component Inlet, new_Component PrimaryClarifier, new_Component Filtration,
                 new_Component Outlet]
   \<and> inletWater ([new_Component Inlet, new_Component PrimaryClarifier, new_Component Filtration,
                   new_Component Outlet] ! 2)
       = outletWater ([new_Component Inlet, new_Component PrimaryClarifier, new_Component Filtration,
                       new_Component Outlet] ! (2 - 1))
   \<and> outletWater (step 0.016 [new_Component Inlet, new_Component PrimaryClarifier,
                               new_Component Filtration, new_Component Outlet] ! 2) TSS = 40
   \<and> outletWater (step 0.016 [new_Component Inlet, new_Component PrimaryClarifier,
                               new_Component Filtration, new_Component Outlet] ! 1) TSS = 60
   \<and> outletWater (simulate 0.016 ((new_Component Filtration)
         \<lparr>inletWater := outletWater (step 0.016 [new_Component Inlet, new_Component PrimaryClarifier,
                               new_Component Filtration, new_Component Outlet] ! 1)\<rparr>)) TSS = 12"
proof -
  let ?cs = "[new_Component Inlet, new_Component PrimaryClarifier, new_Component Filtration,
              new_Component Outlet]"
  have h1: "(0::nat) < 2" by simp
  have h2: "2 < length ?cs" by simp
  have h3: "inletWater (?cs ! 2) = outletWater (?cs ! (2 - 1))" by (simp add: new_Component_def)
  from step_uses_own_inlet[OF h1 h2, of "0.016"] h3
  have "outletWater (step 0.016 ?cs ! 2) =
          outletWater (simulate 0.016 ((?cs ! 2)\<lparr>inletWater := outletWater (?cs ! (2 - 1))\<rparr>))"
    by blast
  then have b: "outletWater (step 0.016 ?cs ! 2) TSS = 40"
    by (simp add: new_Component_def simulate_def simulate_defs)
  have a: "outletWater (step 0.016 ?cs ! 1) TSS = 60"
    by (simp add: step_nth new_Component_def simulate_def simulate_defs)
  have c: "outletWater (simulate 0.016 ((new_Component Filtration)
         \<lparr>inletWater := outletWater (step 0.016 ?cs ! 1)\<rparr>)) TSS = 12"
    by (simp add: step_nth new_Component_def simulate_def simulate_defs)
  from h1 h2 h3 a b c show ?thesis by blast
qed

text \<open>
  The claim as stated takes the pre-step outlet of the predecessor without asking that it
  has reached the unit's inlet. After the Source's outlet is set to TSS 100 in a fresh
  chain, the clarifier still holds the default inlet (TSS 200) and its first outlet is
  60, not the 30 that its transfer function gives on the Source's pre-step outlet.
\<close>

theorem step_pre_step_outlet_counterexample:
  "outletWater (step 0.016
       [(new_Component Inlet)\<lparr>outletWater := updateParameter Water_default TSS 100\<rparr>,
        new_Component PrimaryClarifier, new_Component Outlet] ! 1) TSS
   \<noteq> outletWater (simulate 0.016
       ((new_Component PrimaryClarifier)
          \<lparr>inletWater := outletWater ((new_Component Inlet)\<lparr>outletWater := updateParameter Water_default TSS 100\<rparr>)\<rparr>)) TSS"
  by (simp add: step_nth new_Component_def simulate_def simulate_defs)

text \<open>
  Claim C4, as amended. One step keeps the number of units, leaves the Source (index 0)
  as it is, and invokes the transfer function of every other unit, the Sink included: the
  first loop turns unit \<open>i > 0\<close> into \<open>simulate\<close> of it, then the second loop gives it
  the outlet of its predecessor as inlet. The Sink runs the pass-through of the base
  class, so its outlet becomes its pre-step inlet.
\<close>

theorem step_simulates_all_but_source:
  assumes "i < length cs"
  shows "length (step deltaTime cs) = length cs
     \<and> simulate_loop deltaTime 0 cs ! i = (if i = 0 then cs ! i else simulate deltaTime (cs ! i))
     \<and> (i = 0 \<longrightarrow> step deltaTime cs ! i = cs ! i)
     \<and> (0 < i \<longrightarrow> step deltaTime cs ! i =
           (simulate deltaTime (cs ! i))\<lparr>inletWater := outletWater (simulate_loop deltaTime 0 cs ! (i - 1))\<rparr>)
     \<and> (0 < i \<and> cls (cs ! i) = Outlet \<longrightarrow>
           outletWater (step deltaTime cs ! i) = inletWater (cs ! i))"
proof (intro conjI impI)
  show "length (step deltaTime cs) = length cs" by simp
  show "simulate_loop deltaTime 0 cs ! i = (if i = 0 then cs ! i else simulate deltaTime (cs ! i))"
    using assms by (simp add: simulate_loop_nth)
  show "step deltaTime cs ! i = cs ! i" if "i = 0"
    using assms that by (simp add: step_nth)
  show "step deltaTime cs ! i =
           (simulate deltaTime (cs ! i))\<lparr>inletWater := outletWater (simulate_loop deltaTime 0 cs ! (i - 1))\<rparr>"
    if "0 < i"
    using assms that by (simp add: step_def propagate_loop_nth simulate_loop_nth)
  show "outletWater (step deltaTime cs ! i) = inletWater (cs ! i)" if "0 < i \<and> cls (cs ! i) = Outlet"
    using assms that by (simp add: step_nth simulate_def Component_simulate_def)
qed

text \<open>
  An instance: a Sink whose inlet holds BOD 1 has outlet BOD 1 after the step.
\<close>

theorem step_simulates_all_but_source_witness:
  "(1::nat) < length [new_Component Inlet, (new_Component Outlet)\<lparr>inletWater := updateParameter Water_default BOD 1\<rparr>]
   \<and> (0::nat) < 1
   \<and> cls ([new_Component Inlet, (new_Component Outlet)\<lparr>inletWater := updateParameter Water_default BOD 1\<rparr>] ! 1) = Outlet
   \<and> outletWater (step 0.016 [new_Component Inlet,
          (new_Component Outlet)\<lparr>inletWater := updateParameter Water_default BOD 1\<rparr>] ! 1) BOD = 1"
proof -
  let ?cs = "[new_Component Inlet, (new_Component Outlet)\<lparr>inletWater := updateParameter Water_default BOD 1\<rparr>]"
  have h1: "(1::nat) < length ?cs" by simp
  have h2: "(0::nat) < 1" by simp
  have h3: "cls (?cs ! 1) = Outlet" by (simp add: new_Component_def)
  from step_simulates_all_but_source[OF h1, of "0.016"] h2 h3
  have "outletWater (step 0.016 ?cs ! 1) = inletWater (?cs ! 1)" by blast
  then have "outletWater (step 0.016 ?cs ! 1) BOD = 1"
    by (simp add: new_Component_def updateParameter_def)
  with h1 h2 h3 show ?thesis by blast
qed

text \<open>
  The claim as stated has the Sink never simulated, which is \<^const>\<open>spec_step\<close>. From a
  fresh inlet-outlet pair with the Source's outlet set to BOD 1, two steps of the code
  bring the Sink's outlet to BOD 1, while a Sink that is never simulated keeps the
  default 300.
\<close>

theorem sink_never_simulated_counterexample:
  "outletWater (step 0.016 (step 0.016
       [(new_Component Inlet)\<lparr>outletWater := updateParameter Water_default BOD 1\<rparr>,
        new_Component Outlet]) ! 1) BOD = 1
   \<and> outletWater (spec_step 0.016 (spec_step 0.016
       [(new_Component Inlet)\<lparr>outletWater := updateParameter Water_default BOD 1\<rparr>,
        new_Component Outlet]) ! 1) BOD = 300"
  by (simp add: step_nth spec_step_nth new_Component_def simulate_def simulate_defs)

section \<open>Dissolved oxygen\<close>




text \<open>
  Claim C6 asks for an outlet dissolved oxygen of at least zero after every kinetic-family
  unit, for every inlet sample without negative values. The units clamp with
  \<^verbatim>\<open>if (DO < 0)\<close>, a test that is false of NaN. An aeration tank with HRT 0 and the default
  influent at 3000 degrees has the temperature factor \<open>1.035 powr 2980\<close>, beyond the
  range of a \<^verbatim>\<open>float\<close>, hence infinite; zero times infinity is NaN, so are both removals
  and the oxygen demand, and the outlet dissolved oxygen is NaN, which is not at least
  zero.
\<close>

theorem aeration_DO_not_a_number:
  "(\<forall>param. f_ge (hot_inlet param) (Finite 0))
   \<and> AerationTank_simulate_float (Finite 0) hot_inlet DO = NaN
   \<and> \<not> f_ge (AerationTank_simulate_float (Finite 0) hot_inlet DO) (Finite 0)"
proof -
  have a: "\<forall>param. f_ge (hot_inlet param) (Finite 0)"
    by (simp add: all_WaterParameter hot_inlet_def)
  have b: "AerationTank_simulate_float (Finite 0) hot_inlet DO = NaN"
    unfolding AerationTank_simulate_float_def Let_def hot_tempFactor
    by (simp add: hot_inlet_def f_sub_def round_float_def overflow_threshold_def)
  from a b show ?thesis by simp
qed

section \<open>The aeration-tank scenario\<close>

text \<open>
  Claim C7. An aeration tank with HRT 10 whose inlet is the default sample (BOD 300,
  temperature 20, hence temperature factor 1) has, after one step of a chain that holds
  it between two other units, the outlet BOD \<open>300 * exp (- 0.2 * 10)\<close>, which lies within
  0.01 of 40.6. The arithmetic is that of the real numbers.
\<close>

theorem aeration_tank_scenario:
  assumes "cls c = AerationTank" and "HRT c = 10" and "inletWater c = Water_default"
  shows "outletWater (step deltaTime [src, c, snk] ! 1) BOD = 300 * exp (- (0.2 * 10))
     \<and> \<bar>outletWater (step deltaTime [src, c, snk] ! 1) BOD - 40.6\<bar> < 0.01"
proof -
  have "outletWater (step deltaTime [src, c, snk] ! 1) BOD = outletWater (simulate deltaTime c) BOD"
    by (simp add: step_nth)
  also have "\<dots> = 300 * exp (- 2)"
    using assms by (simp add: simulate_def simulate_defs algebra_simps)
  finally have e: "outletWater (step deltaTime [src, c, snk] ! 1) BOD = 300 * exp (- 2)" .
  with exp_minus_two_approx show ?thesis by simp
qed

text \<open>
  An instance: the fresh chain of inlet, aeration tank and outlet.
\<close>

theorem aeration_tank_scenario_witness:
  "cls (new_Component AerationTank) = AerationTank
   \<and> HRT (new_Component AerationTank) = 10
   \<and> temperature (new_Component AerationTank) = 20
   \<and> inletWater (new_Component AerationTank) = Water_default
   \<and> outletWater (step 0.016 [new_Component Inlet, new_Component AerationTank, new_Component Outlet] ! 1) BOD
       = 300 * exp (- (0.2 * 10))
   \<and> \<bar>outletWater (step 0.016 [new_Component Inlet, new_Component AerationTank, new_Component Outlet] ! 1) BOD
        - 40.6\<bar> < 0.01"
proof -
  have h1: "cls (new_Component AerationTank) = AerationTank"
    and h2: "HRT (new_Component AerationTank) = 10"
    and h3: "inletWater (new_Component AerationTank) = Water_default"
    and h4: "temperature (new_Component AerationTank) = 20"
    by (simp_all add: new_Component_def)
  from aeration_tank_scenario[OF h1 h2 h3, of "0.016" "new_Component Inlet" "new_Component Outlet"]
       h1 h2 h3 h4
  show ?thesis by blast
qed

section \<open>History\<close>

text \<open>
  Claim C8. Appending values to an empty history of positive capacity always succeeds and
  leaves the last \<open>capacity\<close> of them in arrival order, the most recent last, so never
  more than \<open>capacity\<close>. The histories of the program start empty with capacity 100:
  after any number of recorded steps, the series of every parameter holds the last 100
  outlet values of that parameter, over all units in chain order, step after step.
\<close>

theorem history_fifo:
  "(0 < capacity \<longrightarrow>
      addValues (new_ParameterHistory capacity) vals =
        Some \<lparr>hvalues = drop (length vals - capacity) vals, maxSize = capacity\<rparr>
      \<and> length (drop (length vals - capacity) vals) \<le> capacity)
   \<and> (\<exists>hs. updateHistories_all css Map.empty = Some hs \<and>
         (\<forall>p. length (hvalues (history_at hs p)) \<le> 100 \<and>
              history_at hs p =
                \<lparr>hvalues = drop (length (concat (map (map (\<lambda>c. outletWater c p)) css)) - 100)
                              (concat (map (map (\<lambda>c. outletWater c p)) css)),
                  maxSize = 100\<rparr>))"
proof (intro conjI impI)
  assume "0 < capacity"
  then show "addValues (new_ParameterHistory capacity) vals =
        Some \<lparr>hvalues = drop (length vals - capacity) vals, maxSize = capacity\<rparr>"
    using addValues_within[of "new_ParameterHistory capacity" vals]
    by (simp add: new_ParameterHistory_def)
next
  show "length (drop (length vals - capacity) vals) \<le> capacity" by simp
next
  from updateHistories_all_project[OF histories_ok_empty, of css]
  obtain hs where hs: "updateHistories_all css Map.empty = Some hs"
    "\<And>p. Some (history_at hs p) =
        addValues (history_at Map.empty p) (concat (map (map (\<lambda>c. outletWater c p)) css))"
    by blast
  have eq: "history_at hs p =
            \<lparr>hvalues = drop (length (concat (map (map (\<lambda>c. outletWater c p)) css)) - 100)
                          (concat (map (map (\<lambda>c. outletWater c p)) css)),
              maxSize = 100\<rparr>" for p
  proof -
    have "history_at Map.empty p = new_ParameterHistory 100" by (simp add: history_at_def)
    with hs(2)[of p]
         addValues_within[of "new_ParameterHistory 100" "concat (map (map (\<lambda>c. outletWater c p)) css)"]
    show ?thesis by (simp add: new_ParameterHistory_def)
  qed
  have len: "length (hvalues (history_at hs p)) \<le> 100" for p
    unfolding eq by simp
  from hs(1) eq len
  show "\<exists>hs. updateHistories_all css Map.empty = Some hs \<and>
         (\<forall>p. length (hvalues (history_at hs p)) \<le> 100 \<and>
              history_at hs p =
                \<lparr>hvalues = drop (length (concat (map (map (\<lambda>c. outletWater c p)) css)) - 100)
                              (concat (map (map (\<lambda>c. outletWater c p)) css)),
                  maxSize = 100\<rparr>)"
    by blast
qed

text \<open>
  An instance: three values into a history of capacity 2.
\<close>

theorem history_fifo_witness:
  "(0::nat) < 2
   \<and> addValues (new_ParameterHistory 2) [1, 2, 3] = Some \<lparr>hvalues = [2, 3], maxSize = 2\<rparr>"
proof -
  have h: "(0::nat) < 2" by simp
  from history_fifo[of 2 "[1, 2, 3]" "[]"] h
  have "addValues (new_ParameterHistory 2) [1, 2, 3] =
        Some \<lparr>hvalues = drop (length [1, 2, 3 :: real] - 2) [1, 2, 3], maxSize = 2\<rparr>"
    by blast
  with h show ?thesis by simp
qed

section \<open>Frame of a transfer function\<close>

text \<open>
  Claim C9. A transfer function leaves every parameter outside the targets of its class
  at the inlet value, and changes nothing of the component but its outlet sample.
\<close>

theorem untargeted_parameters_unchanged:
  assumes "p \<notin> targets (cls c)"
  shows "outletWater (simulate deltaTime c) p = inletWater c p
     \<and> simulate deltaTime c = c\<lparr>outletWater := outletWater (simulate deltaTime c)\<rparr>"
  using assms simulate_frame simulate_only_outlet by blast

text \<open>
  An instance: chlorination does not touch BOD.
\<close>

theorem untargeted_parameters_unchanged_witness:
  "BOD \<notin> targets (cls (new_Component ChlorineDisinfectionUnit))
   \<and> outletWater (simulate 0.016 (new_Component ChlorineDisinfectionUnit)) BOD = 300"
proof -
  have h: "BOD \<notin> targets (cls (new_Component ChlorineDisinfectionUnit))"
    by (simp add: new_Component_def)
  from untargeted_parameters_unchanged[OF h, of "0.016"]
  have "outletWater (simulate 0.016 (new_Component ChlorineDisinfectionUnit)) BOD
        = inletWater (new_Component ChlorineDisinfectionUnit) BOD"
    by blast
  with h show ?thesis by (simp add: new_Component_def)
qed

section \<open>The temperature setting of a unit\<close>

text \<open>
  Claim C10. Two invocations that differ only in the \<^verbatim>\<open>temperature\<close> field of the unit
  give the same outlet sample. The temperature factor of the six kinetic classes is
  \<open>1.035 powr (TEMP - 20)\<close> of the inlet sample, as the outlet ammonium shows for each.
\<close>

theorem temperature_setting_ignored:
  "outletWater (simulate deltaTime (c\<lparr>temperature := t1\<rparr>))
     = outletWater (simulate deltaTime (c\<lparr>temperature := t2\<rparr>))
   \<and> (cls c = AerationTank \<or> cls c = ActiveSludgeProcess \<or> cls c = NitrificationTank \<longrightarrow>
        outletWater (simulate deltaTime (c\<lparr>temperature := t1\<rparr>)) NH4
          = inletWater c NH4 * exp (- (0.1 * HRT c * 1.035 powr (inletWater c TEMP - 20))))
   \<and> (cls c = Biofilter \<or> cls c = AnaerobicAerobicFilter \<longrightarrow>
        outletWater (simulate deltaTime (c\<lparr>temperature := t1\<rparr>)) NH4
          = inletWater c NH4 * exp (- (0.05 * HRT c * 1.035 powr (inletWater c TEMP - 20))))
   \<and> (cls c = MBR \<longrightarrow>
        outletWater (simulate deltaTime (c\<lparr>temperature := t1\<rparr>)) NH4
          = inletWater c NH4 * exp (- (0.03 * HRT c * 1.035 powr (inletWater c TEMP - 20))))"
proof (intro conjI impI)
  show "outletWater (simulate deltaTime (c\<lparr>temperature := t1\<rparr>))
     = outletWater (simulate deltaTime (c\<lparr>temperature := t2\<rparr>))"
    by (simp add: simulate_temperature)
next
  assume "cls c = AerationTank \<or> cls c = ActiveSludgeProcess \<or> cls c = NitrificationTank"
  then show "outletWater (simulate deltaTime (c\<lparr>temperature := t1\<rparr>)) NH4
          = inletWater c NH4 * exp (- (0.1 * HRT c * 1.035 powr (inletWater c TEMP - 20)))"
    unfolding simulate_temperature
    by (elim disjE) (simp_all add: simulate_def simulate_defs algebra_simps)
next
  assume "cls c = Biofilter \<or> cls c = AnaerobicAerobicFilter"
  then show "outletWater (simulate deltaTime (c\<lparr>temperature := t1\<rparr>)) NH4
          = inletWater c NH4 * exp (- (0.05 * HRT c * 1.035 powr (inletWater c TEMP - 20)))"
    unfolding simulate_temperature
    by (elim disjE) (simp_all add: simulate_def simulate_defs algebra_simps)
next
  assume "cls c = MBR"
  then show "outletWater (simulate deltaTime (c\<lparr>temperature := t1\<rparr>)) NH4
          = inletWater c NH4 * exp (- (0.03 * HRT c * 1.035 powr (inletWater c TEMP - 20)))"
    unfolding simulate_temperature
    by (simp add: simulate_def simulate_defs algebra_simps)
qed

text \<open>
  Instances: an aeration tank, a biofilter and a membrane bioreactor set to 5 and to 35 degrees.
\<close>

theorem temperature_setting_ignored_witness:
  "outletWater (simulate 0.016 ((new_Component AerationTank)\<lparr>temperature := 5\<rparr>))
     = outletWater (simulate 0.016 ((new_Component AerationTank)\<lparr>temperature := 35\<rparr>))
   \<and> cls (new_Component AerationTank) = AerationTank
   \<and> outletWater (simulate 0.016 ((new_Component AerationTank)\<lparr>temperature := 5\<rparr>)) NH4
       = 50 * exp (- 1)
   \<and> cls (new_Component Biofilter) = Biofilter
   \<and> outletWater (simulate 0.016 ((new_Component Biofilter)\<lparr>temperature := 5\<rparr>)) NH4
       = 50 * exp (- (1 / 2))
   \<and> cls (new_Component MBR) = MBR
   \<and> outletWater (simulate 0.016 ((new_Component MBR)\<lparr>temperature := 5\<rparr>)) NH4
       = 50 * exp (- (3 / 10))"
proof -
  have h1: "cls (new_Component AerationTank) = AerationTank"
    and h2: "cls (new_Component Biofilter) = Biofilter"
    and h3: "cls (new_Component MBR) = MBR"
    by (simp_all add: new_Component_def)
  have v: "inletWater (new_Component k) NH4 = 50" "inletWater (new_Component k) TEMP = 20"
    "HRT (new_Component k) = 10" for k
    by (simp_all add: new_Component_def)
  note a = temperature_setting_ignored[where deltaTime = "0.016" and c = "new_Component AerationTank" and ?t1.0 = 5 and ?t2.0 = 35]
  note b = temperature_setting_ignored[where deltaTime = "0.016" and c = "new_Component Biofilter" and ?t1.0 = 5 and ?t2.0 = 35]
  note m = temperature_setting_ignored[where deltaTime = "0.016" and c = "new_Component MBR" and ?t1.0 = 5 and ?t2.0 = 35]
  have "outletWater (simulate 0.016 ((new_Component AerationTank)\<lparr>temperature := 5\<rparr>))
     = outletWater (simulate 0.016 ((new_Component AerationTank)\<lparr>temperature := 35\<rparr>))"
    using a by blast
  moreover have "outletWater (simulate 0.016 ((new_Component AerationTank)\<lparr>temperature := 5\<rparr>)) NH4
       = 50 * exp (- 1)"
  proof -
    from a h1
    have "outletWater (simulate 0.016 ((new_Component AerationTank)\<lparr>temperature := 5\<rparr>)) NH4
          = inletWater (new_Component AerationTank) NH4
            * exp (- (0.1 * HRT (new_Component AerationTank) * 1.035 powr (inletWater (new_Component AerationTank) TEMP - 20)))"
      by blast
    then show ?thesis by (simp add: v)
  qed
  moreover have "outletWater (simulate 0.016 ((new_Component Biofilter)\<lparr>temperature := 5\<rparr>)) NH4
       = 50 * exp (- (1 / 2))"
  proof -
    from b h2
    have "outletWater (simulate 0.016 ((new_Component Biofilter)\<lparr>temperature := 5\<rparr>)) NH4
          = inletWater (new_Component Biofilter) NH4
            * exp (- (0.05 * HRT (new_Component Biofilter) * 1.035 powr (inletWater (new_Component Biofilter) TEMP - 20)))"
      by blast
    then show ?thesis by (simp add: v)
  qed
  moreover have "outletWater (simulate 0.016 ((new_Component MBR)\<lparr>temperature := 5\<rparr>)) NH4
       = 50 * exp (- (3 / 10))"
  proof -
    from m h3
    have "outletWater (simulate 0.016 ((new_Component MBR)\<lparr>temperature := 5\<rparr>)) NH4
          = inletWater (new_Component MBR) NH4
            * exp (- (0.03 * HRT (new_Component MBR) * 1.035 powr (inletWater (new_Component MBR) TEMP - 20)))"
      by blast
    then show ?thesis by (simp add: v)
  qed
  ultimately show ?thesis using h1 h2 h3 by blast
qed

end
